theory Spec2Isabelle
  imports Main "HOL-Library.Word"
begin

section \<open>Errors and outcomes\<close>

text \<open>
  Go error values. \<open>errors_New msg\<close> is \<^verbatim>\<open>errors.New(msg)\<close> (and \<^verbatim>\<open>fmt.Errorf\<close> without
  \<^verbatim>\<open>%w\<close>), \<open>ErrNotSupported\<close> is the sentinel \<^verbatim>\<open>http.ErrNotSupported\<close>, and
  \<open>Wrap msg e\<close> is an error that wraps \<open>e\<close> (\<^verbatim>\<open>fmt.Errorf("...%w", e)\<close>),
  \<open>AddrError why addr\<close> is \<^verbatim>\<open>&net.AddrError{Err: why, Addr: addr}\<close>.
  A Go \<^verbatim>\<open>error\<close> result is an \<open>error option\<close>: \<open>None\<close> is \<^verbatim>\<open>nil\<close>.
\<close>

datatype error = errors_New string | ErrNotSupported | Wrap string error | AddrError string string

text \<open>\<^verbatim>\<open>errors.Is(err, target)\<close>: \<open>err\<close> or an error it wraps equals \<open>target\<close>.\<close>

fun errors_Is :: "error \<Rightarrow> error \<Rightarrow> bool" where
  "errors_Is (Wrap msg e) target = (Wrap msg e = target \<or> errors_Is e target)"
| "errors_Is e target = (e = target)"

text \<open>A call either returns a value or panics (aborts the calling goroutine).\<close>

datatype 'a result = Return 'a | Panic error

section \<open>Response: the capturing response wrapper\<close>

type_synonym byte = "8 word"

text \<open>
  The wrapped \<^verbatim>\<open>http.ResponseWriter\<close> is an interface value: an object with a state
  \<open>'u\<close> and methods on it. \<open>WriteHeader_u\<close> and \<open>Write_u\<close> are the two methods every
  writer has; \<open>Write_u\<close> reports the byte count (a Go \<^verbatim>\<open>int\<close>) and an error.
  The three optional capabilities are \<open>None\<close> when the writer does not offer them:
  \<open>Flush_u\<close> and \<open>Hijack_u\<close> are what \<^verbatim>\<open>http.NewResponseController(w)\<close> finds for
  \<open>w\<close>, \<open>Push_u\<close> is the result of the type assertion \<^verbatim>\<open>w.(http.Pusher)\<close>.
  A hijacked connection is identified by a number. \<open>TypeName_u\<close> is the writer's
  dynamic type as \<^verbatim>\<open>%T\<close> prints it. The methods of the underlying writer are taken
  to return; a panic inside one of them is not modelled.
\<close>

record PushOptions =
  Method :: string
  Header :: "(string \<times> string list) list"

record 'u ResponseWriter_ops =
  WriteHeader_u :: "int \<Rightarrow> 'u \<Rightarrow> 'u"
  Write_u :: "byte list \<Rightarrow> 'u \<Rightarrow> (int \<times> error option) \<times> 'u"
  Flush_u :: "('u \<Rightarrow> error option \<times> 'u) option"
  Hijack_u :: "('u \<Rightarrow> (nat option \<times> error option) \<times> 'u) option"
  Push_u :: "(string \<Rightarrow> PushOptions option \<Rightarrow> 'u \<Rightarrow> error option \<times> 'u) option"
  TypeName_u :: string

text \<open>
  \<^verbatim>\<open>type response struct { http.ResponseWriter; status int; size int64; committed bool }\<close>
  The field \<^verbatim>\<open>size\<close> is \<open>rsize\<close> here, a 64-bit integer.
\<close>

record 'u response =
  ResponseWriter :: 'u
  status :: int
  rsize :: "64 word"
  committed :: bool

text \<open>
  The argument of \<^verbatim>\<open>NewResponse\<close>: a writer that already is a \<^verbatim>\<open>Response\<close>, or any
  other writer.
\<close>

datatype 'u writer = IsResponse "'u response" | Raw 'u

fun NewResponse :: "'u writer \<Rightarrow> 'u response" where
  "NewResponse (IsResponse r) = r"
| "NewResponse (Raw w) = \<lparr>ResponseWriter = w, status = 200, rsize = 0, committed = False\<rparr>"

definition Status :: "'u response \<Rightarrow> int" where
  "Status r = status r"

definition Size :: "'u response \<Rightarrow> 64 word" where
  "Size r = rsize r"

definition Committed :: "'u response \<Rightarrow> bool" where
  "Committed r = committed r"

definition Unwrap :: "'u response \<Rightarrow> 'u" where
  "Unwrap r = ResponseWriter r"

text \<open>
  The methods that write run on the response together with the process log
  (\<^verbatim>\<open>log.Printf\<close> appends a line to it).
\<close>

definition WriteHeader ::
  "'u ResponseWriter_ops \<Rightarrow> int \<Rightarrow> 'u response \<times> string list \<Rightarrow> 'u response \<times> string list"
where
  "WriteHeader ops code st =
     (case st of (r, lg) \<Rightarrow>
        if committed r
        then (r, lg @ [''attempt to write header after response committed''])
        else (r\<lparr>status := code, committed := True,
                ResponseWriter := WriteHeader_u ops code (ResponseWriter r)\<rparr>, lg))"

definition Write ::
  "'u ResponseWriter_ops \<Rightarrow> byte list \<Rightarrow> 'u response \<times> string list
     \<Rightarrow> (int \<times> error option) \<times> 'u response \<times> string list"
where
  "Write ops p st =
     (case st of (r, lg) \<Rightarrow>
        let (r1, lg1) =
              (if \<not> committed r
               then (let r0 = (if status r = 0 then r\<lparr>status := 200\<rparr> else r)
                     in WriteHeader ops (status r0) (r0, lg))
               else (r, lg));
            ((n, err), u) = Write_u ops p (ResponseWriter r1)
        in ((n, err), r1\<lparr>ResponseWriter := u, rsize := rsize r1 + word_of_int n\<rparr>, lg1))"

text \<open>
  \<^verbatim>\<open>http.NewResponseController(w).Flush()\<close> and \<^verbatim>\<open>.Hijack()\<close>: the capability's own
  result, or an error wrapping \<^verbatim>\<open>http.ErrNotSupported\<close> when the writer has none.
\<close>

definition ResponseController_Flush ::
  "'u ResponseWriter_ops \<Rightarrow> 'u \<Rightarrow> error option \<times> 'u" where
  "ResponseController_Flush ops u =
     (case Flush_u ops of
        None \<Rightarrow> (Some (Wrap ''feature not supported'' ErrNotSupported), u)
      | Some f \<Rightarrow> f u)"

definition ResponseController_Hijack ::
  "'u ResponseWriter_ops \<Rightarrow> 'u \<Rightarrow> (nat option \<times> error option) \<times> 'u" where
  "ResponseController_Hijack ops u =
     (case Hijack_u ops of
        None \<Rightarrow> ((None, Some (Wrap ''feature not supported'' ErrNotSupported)), u)
      | Some h \<Rightarrow> h u)"

definition Hijack ::
  "'u ResponseWriter_ops \<Rightarrow> 'u response \<Rightarrow> ((nat option \<times> error option) \<times> 'u response) result"
where
  "Hijack ops r =
     (let (res, u) = ResponseController_Hijack ops (ResponseWriter r)
      in Return (res, r\<lparr>ResponseWriter := u\<rparr>))"

definition Flush :: "'u ResponseWriter_ops \<Rightarrow> 'u response \<Rightarrow> ('u response) result" where
  "Flush ops r =
     (let (err, u) = ResponseController_Flush ops (ResponseWriter r)
      in case err of
           None \<Rightarrow> Return (r\<lparr>ResponseWriter := u\<rparr>)
         | Some e \<Rightarrow>
             if errors_Is e ErrNotSupported
             then Panic (errors_New (''h3: response writer '' @ TypeName_u ops
                          @ '' does not support flushing (http.Flusher interface)''))
             else Return (r\<lparr>ResponseWriter := u\<rparr>))"

definition Push ::
  "'u ResponseWriter_ops \<Rightarrow> string \<Rightarrow> PushOptions option \<Rightarrow> 'u response
     \<Rightarrow> (error option \<times> 'u response) result"
where
  "Push ops target opts r =
     (case Push_u ops of
        None \<Rightarrow>
          Return (Some (errors_New (''h3: response writer '' @ TypeName_u ops
                          @ '' does not support pushing (http.Pusher interface)'')), r)
      | Some pusher \<Rightarrow>
          (let (err, u) = pusher target opts (ResponseWriter r)
           in Return (err, r\<lparr>ResponseWriter := u\<rparr>)))"

text \<open>
  A handler's successive \<^verbatim>\<open>Write\<close> calls: the reported counts in call order, and
  the final state.
\<close>

fun Writes ::
  "'u ResponseWriter_ops \<Rightarrow> byte list list \<Rightarrow> 'u response \<times> string list
     \<Rightarrow> int list \<times> 'u response \<times> string list"
where
  "Writes ops [] st = ([], st)"
| "Writes ops (p # ps) st =
     (case Write ops p st of
        ((n, err), st1) \<Rightarrow> (case Writes ops ps st1 of (ns, st2) \<Rightarrow> (n # ns, st2)))"

text \<open>
  The body writes alone, as the underlying writer sees them: the counts it reports
  and its final state.
\<close>

fun sink_writes :: "'u ResponseWriter_ops \<Rightarrow> byte list list \<Rightarrow> 'u \<Rightarrow> int list \<times> 'u" where
  "sink_writes ops [] u = ([], u)"
| "sink_writes ops (p # ps) u =
     (case Write_u ops p u of
        ((n, err), u1) \<Rightarrow> (case sink_writes ops ps u1 of (ns, u2) \<Rightarrow> (n # ns, u2)))"

text \<open>Any sequence of header and body writes a handler may perform.\<close>

datatype write_call = CallWriteHeader int | CallWrite "byte list"

fun run_calls ::
  "'u ResponseWriter_ops \<Rightarrow> write_call list \<Rightarrow> 'u response \<times> string list \<Rightarrow> 'u response \<times> string list"
where
  "run_calls ops [] st = st"
| "run_calls ops (CallWriteHeader code # cs) st = run_calls ops cs (WriteHeader ops code st)"
| "run_calls ops (CallWrite p # cs) st = run_calls ops cs (snd (Write ops p st))"

text \<open>
  The writer of the repository's tests that has none of the optional capabilities:
  \<^verbatim>\<open>type nonFlusherWriter struct { header http.Header; body bytes.Buffer; status int }\<close>
  Its \<^verbatim>\<open>Write\<close> appends to the buffer and reports the whole length.
\<close>

record nonFlusherWriter =
  body :: "byte list"
  nf_status :: int

definition nonFlusherWriter_WriteHeader :: "int \<Rightarrow> nonFlusherWriter \<Rightarrow> nonFlusherWriter" where
  "nonFlusherWriter_WriteHeader statusCode w =
     (if nf_status w = 0 then w\<lparr>nf_status := statusCode\<rparr> else w)"

definition nonFlusherWriter_Write ::
  "byte list \<Rightarrow> nonFlusherWriter \<Rightarrow> (int \<times> error option) \<times> nonFlusherWriter" where
  "nonFlusherWriter_Write b w =
     (let w1 = (if nf_status w = 0 then w\<lparr>nf_status := 200\<rparr> else w)
      in ((int (length b), None), w1\<lparr>body := body w1 @ b\<rparr>))"

definition nonFlusherWriter_ops :: "nonFlusherWriter ResponseWriter_ops" where
  "nonFlusherWriter_ops =
     \<lparr>WriteHeader_u = nonFlusherWriter_WriteHeader, Write_u = nonFlusherWriter_Write,
      Flush_u = None, Hijack_u = None, Push_u = None,
      TypeName_u = ''*h3.nonFlusherWriter''\<rparr>"

section \<open>mux: middleware chain and sub-router mounting\<close>

text \<open>
  A handler's behaviour: \<^verbatim>\<open>ServeHTTP(w, r)\<close> acts on the state of the handling
  goroutine. A middleware is a function from handler to handler.
\<close>

type_synonym ('u, 'q, 'st) HandlerFunc = "'u writer \<Rightarrow> 'q \<Rightarrow> 'st \<Rightarrow> 'st"

text \<open>
  A value of type \<^verbatim>\<open>http.Handler\<close> as it is handed to the routing engine: the nil
  interface, a nil \<^verbatim>\<open>http.HandlerFunc\<close>, a handler object (a sub-router among
  them), or the handler \<^verbatim>\<open>http.StripPrefix(prefix, h)\<close> builds for a non-empty
  prefix.
\<close>

datatype 'h Handler = Nil | NilFunc | Obj 'h | StripPrefix string "'h Handler"

text \<open>\<^verbatim>\<open>http.StripPrefix\<close> returns \<open>h\<close> itself for the empty prefix.\<close>

definition http_StripPrefix :: "string \<Rightarrow> 'h Handler \<Rightarrow> 'h Handler" where
  "http_StripPrefix prefix h = (if prefix = [] then h else StripPrefix prefix h)"

text \<open>A value of interface or function type, \<open>None\<close> for nil, converted to a handler.\<close>

fun as_Handler :: "'h option \<Rightarrow> 'h Handler" where
  "as_Handler None = Nil"
| "as_Handler (Some h) = Obj h"

fun as_HandlerFunc :: "'h option \<Rightarrow> 'h Handler" where
  "as_HandlerFunc None = NilFunc"
| "as_HandlerFunc (Some f) = Obj f"

text \<open>
  The routing engine \<^verbatim>\<open>http.ServeMux\<close> is an external collaborator with a state
  \<open>'e\<close>. The router uses two of its methods: \<^verbatim>\<open>Handle(pattern, handler)\<close>, which
  registers or panics (a malformed or conflicting pattern), and \<^verbatim>\<open>ServeHTTP\<close>,
  its match-and-dispatch step.
\<close>

record ('e, 'h, 'f) ServeMux_ops =
  ServeMux_Handle :: "string \<Rightarrow> 'h Handler \<Rightarrow> 'e \<Rightarrow> 'e result"
  ServeMux_ServeHTTP :: "'e \<Rightarrow> 'f"

text \<open>
  \<^verbatim>\<open>type mux struct { mux *http.ServeMux; pre func(http.Handler) http.Handler }\<close>
  with \<open>None\<close> for a nil \<^verbatim>\<open>pre\<close>.
\<close>

record ('e, 'f) mux =
  mux :: 'e
  pre :: "('f \<Rightarrow> 'f) option"

definition NewMux :: "'e \<Rightarrow> ('e, 'f) mux" where
  "NewMux NewServeMux = \<lparr>mux = NewServeMux, pre = None\<rparr>"

definition Use ::
  "(('u, 'q, 'st) HandlerFunc \<Rightarrow> ('u, 'q, 'st) HandlerFunc)
     \<Rightarrow> ('e, ('u, 'q, 'st) HandlerFunc) mux \<Rightarrow> ('e, ('u, 'q, 'st) HandlerFunc) mux"
where
  "Use middleware m =
     (let pre0 = pre m
      in m\<lparr>pre := Some (\<lambda>next.
           case pre0 of
             Some p \<Rightarrow> p (\<lambda>w r. middleware next w r)
           | None \<Rightarrow> middleware next)\<rparr>)"

definition registerErr ::
  "('e, 'h, 'f) ServeMux_ops \<Rightarrow> string \<Rightarrow> 'h Handler \<Rightarrow> ('e, 'f) mux
     \<Rightarrow> (error option \<times> ('e, 'f) mux) result"
where
  "registerErr eng pattern handler m =
     (if pattern = [] then Return (Some (errors_New ''h3: invalid pattern''), m)
      else if handler = Nil then Return (Some (errors_New ''h3: nil handler''), m)
      else if handler = NilFunc then Return (Some (errors_New ''h3: nil handler''), m)
      else (case ServeMux_Handle eng pattern handler (mux m) of
              Panic e \<Rightarrow> Panic e
            | Return e1 \<Rightarrow> Return (None, m\<lparr>mux := e1\<rparr>)))"

definition register ::
  "('e, 'h, 'f) ServeMux_ops \<Rightarrow> string \<Rightarrow> 'h Handler \<Rightarrow> ('e, 'f) mux \<Rightarrow> (('e, 'f) mux) result"
where
  "register eng pattern handler m =
     (case registerErr eng pattern handler m of
        Panic e \<Rightarrow> Panic e
      | Return (Some err, m1) \<Rightarrow> Panic err
      | Return (None, m1) \<Rightarrow> Return m1)"

definition Handle ::
  "('e, 'h, 'f) ServeMux_ops \<Rightarrow> string \<Rightarrow> 'h Handler \<Rightarrow> ('e, 'f) mux \<Rightarrow> (('e, 'f) mux) result"
where
  "Handle eng pattern handler m = register eng pattern handler m"

definition HandleFunc ::
  "('e, 'h, 'f) ServeMux_ops \<Rightarrow> string \<Rightarrow> 'h option \<Rightarrow> ('e, 'f) mux \<Rightarrow> (('e, 'f) mux) result"
where
  "HandleFunc eng pattern handler m = register eng pattern (as_HandlerFunc handler) m"

definition Mount ::
  "('e, 'h, 'f) ServeMux_ops \<Rightarrow> string \<Rightarrow> 'h option \<Rightarrow> ('e, 'f) mux \<Rightarrow> (('e, 'f) mux) result"
where
  "Mount eng pattern sub m =
     (if pattern = [] then Panic (errors_New ''h3: invalid pattern'')
      else if pattern = ''/'' then register eng ''/'' (as_Handler sub) m
      else
        (let pattern1 =
               (if length pattern > 0 \<and> pattern ! (length pattern - 1) = CHR ''/''
                then take (length pattern - 1) pattern else pattern)
         in register eng (pattern1 @ ''/{path...}'') (http_StripPrefix pattern1 (as_Handler sub)) m))"

definition ServeHTTP ::
  "('e, 'h, ('u, 'q, 'st) HandlerFunc) ServeMux_ops \<Rightarrow> ('e, ('u, 'q, 'st) HandlerFunc) mux
     \<Rightarrow> ('u, 'q, 'st) HandlerFunc"
where
  "ServeHTTP eng m w r =
     (case pre m of
        Some p \<Rightarrow> p (ServeMux_ServeHTTP eng (mux m)) (IsResponse (NewResponse w)) r
      | None \<Rightarrow> ServeMux_ServeHTTP eng (mux m) (IsResponse (NewResponse w)) r)"

text \<open>Middlewares registered one after the other, the head of the list first.\<close>

fun Use_all ::
  "(('u, 'q, 'st) HandlerFunc \<Rightarrow> ('u, 'q, 'st) HandlerFunc) list
     \<Rightarrow> ('e, ('u, 'q, 'st) HandlerFunc) mux \<Rightarrow> ('e, ('u, 'q, 'st) HandlerFunc) mux"
where
  "Use_all [] m = m"
| "Use_all (middleware # rest) m = Use_all rest (Use middleware m)"

text \<open>The handler that \<open>ServeHTTP\<close> runs around a terminal handler \<open>H\<close>.\<close>

definition composed :: "('e, 'f) mux \<Rightarrow> 'f \<Rightarrow> 'f" where
  "composed m H = (case pre m of Some p \<Rightarrow> p H | None \<Rightarrow> H)"

text \<open>
  What a request observes of an onion middleware: its logic before and after the
  call of the next handler, recorded in the state of the handling goroutine.
\<close>

datatype 'l step = Before 'l | Handled | After 'l

definition onion ::
  "'l \<Rightarrow> ('u, 'q, 'l step list) HandlerFunc \<Rightarrow> ('u, 'q, 'l step list) HandlerFunc" where
  "onion l next w r st = next w r (st @ [Before l]) @ [After l]"

definition terminal :: "('u, 'q, 'l step list) HandlerFunc" where
  "terminal w r st = st @ [Handled]"

text \<open>
  A routing engine that only records the registrations it is given, in order.
\<close>

definition recording_ServeMux ::
  "((string \<times> 'h Handler) list, 'h, ('u, 'q, 'l step list) HandlerFunc) ServeMux_ops" where
  "recording_ServeMux =
     \<lparr>ServeMux_Handle = (\<lambda>pattern handler e. Return (e @ [(pattern, handler)])),
      ServeMux_ServeHTTP = (\<lambda>e. terminal)\<rparr>"

section \<open>Servlet and Server: the lifecycle\<close>

text \<open>
  A \<^verbatim>\<open>context.Context\<close>, as far as its deadline and cancellation go.
  \<open>Background\<close> is \<^verbatim>\<open>context.Background()\<close>; \<^verbatim>\<open>context.WithCancel\<close> of it has the
  same two fields until its cancel function runs.
\<close>

record Context =
  deadline :: "nat option"
  cancelled :: bool

definition Background :: Context where
  "Background = \<lparr>deadline = None, cancelled = False\<rparr>"

text \<open>
  \<^verbatim>\<open>type Servlet interface { Start(ctx context.Context) error; Stop() error }\<close>
  A servlet is an object of the application: its methods act on the state \<open>'w\<close> of
  everything outside the server, and are taken to return.
\<close>

record 'w Servlet =
  Start :: "Context \<Rightarrow> 'w \<Rightarrow> error option \<times> 'w"
  Stop :: "'w \<Rightarrow> error option \<times> 'w"

text \<open>
  \<^verbatim>\<open>type Component interface { Mux() Mux; Prefix() string }\<close>; \<open>Servlet_of\<close> is the
  result of the type assertion \<^verbatim>\<open>c.(Servlet)\<close>.
\<close>

record ('w, 'c) Component =
  Mux :: "'c option"
  Prefix :: string
  Servlet_of :: "'w Servlet option"

text \<open>\<^verbatim>\<open>Options\<close>: of its fields only \<^verbatim>\<open>Addr\<close> is read by the lifecycle; the others are
  copied into the \<^verbatim>\<open>http.Server\<close> unchanged.\<close>

record Options =
  Addr :: string

text \<open>
  The \<^verbatim>\<open>http.Server\<close> that \<^verbatim>\<open>Start\<close> builds: its address and the context
  \<^verbatim>\<open>lctx\<close> that \<^verbatim>\<open>BaseContext\<close> returns.
\<close>

record http_Server =
  Server_Addr :: string
  BaseContext :: Context

text \<open>
  \<^verbatim>\<open>type Server struct { opts *Options; mux Mux; servs []Servlet; exit chan chan error }\<close>
  The field \<^verbatim>\<open>mux\<close> is \<open>smux\<close> here. The unbuffered channel \<^verbatim>\<open>exit\<close> is
  represented by the goroutines that are blocked receiving from it, in the order in
  which they arrived. Only the coordination goroutine that a successful \<^verbatim>\<open>Start\<close>
  spawns receives from it, once; it is identified by the \<^verbatim>\<open>http.Server\<close> it closes
  over.
\<close>

record ('w, 'm) Server =
  opts :: Options
  smux :: 'm
  servs :: "'w Servlet list"
  exit :: "http_Server list"

definition New :: "'m \<Rightarrow> Options list \<Rightarrow> ('w, 'm) Server" where
  "New m options =
     (let opts0 = (if length options > 0 then options ! 0 else \<lparr>Addr = []\<rparr>)
      in \<lparr>opts = opts0, smux = m, servs = [], exit = []\<rparr>)"

definition NewServer :: "string \<Rightarrow> 'm \<Rightarrow> ('w, 'm) Server" where
  "NewServer addr m = New m [\<lparr>Addr = addr\<rparr>]"

text \<open>
  \<^verbatim>\<open>Register\<close> calls \<^verbatim>\<open>s.mux.Mount\<close>, a method of whatever \<^verbatim>\<open>Mux\<close> the server
  holds: it is the parameter \<open>Mux_Mount\<close>.
\<close>

definition Register ::
  "(string \<Rightarrow> 'c option \<Rightarrow> 'm \<Rightarrow> 'm result) \<Rightarrow> ('w, 'c) Component \<Rightarrow> ('w, 'm) Server
     \<Rightarrow> (('w, 'm) Server) result"
where
  "Register Mux_Mount c s =
     (case Mux_Mount (Prefix c) (Mux c) (smux s) of
        Panic e \<Rightarrow> Panic e
      | Return m1 \<Rightarrow>
          (case Servlet_of c of
             Some serv \<Rightarrow> Return (s\<lparr>smux := m1, servs := servs s @ [serv]\<rparr>)
           | None \<Rightarrow> Return (s\<lparr>smux := m1\<rparr>)))"

text \<open>
  What the lifecycle does that can be observed from outside, in the order in which
  it happens: a servlet method called (the servlet's index in \<^verbatim>\<open>servs\<close>, counted
  from 0, and the error it returned), a line logged with \<^verbatim>\<open>log.Println\<close>, a
  goroutine spawned, the engine shut down with a context.
\<close>

datatype event =
    StartCalled nat "error option"
  | StopCalled nat "error option"
  | Logged error
  | Go_coordinator http_Server
  | Go_ListenAndServe http_Server
  | ShutdownCalled http_Server Context "error option"

text \<open>
  The standard library and the transport engine, external collaborators:
  \<^verbatim>\<open>net.SplitHostPort\<close> (its error is \<open>Inl\<close>) and \<^verbatim>\<open>(*http.Server).Shutdown(ctx)\<close>,
  which drains in-flight work bounded by \<open>ctx\<close> and is taken to return.
\<close>

record 'w stdlib =
  SplitHostPort :: "string \<Rightarrow> error + string \<times> string"
  Shutdown :: "http_Server \<Rightarrow> Context \<Rightarrow> 'w \<Rightarrow> error option \<times> 'w"

text \<open>
  The loop \<^verbatim>\<open>for j := n - 1; j >= 0; j-- { stopErr := s.servs[j].Stop(); ... }\<close>,
  which \<^verbatim>\<open>Start\<close> runs with \<open>n = i\<close> to roll back and the coordination goroutine
  runs with \<open>n = len(s.servs)\<close>. Both call it with \<open>n \<le> length ss\<close>.
\<close>

fun stop_servs :: "'w Servlet list \<Rightarrow> nat \<Rightarrow> 'w \<Rightarrow> 'w \<times> event list" where
  "stop_servs ss 0 w = (w, [])"
| "stop_servs ss (Suc j) w =
     (case Stop (ss ! j) w of
        (stopErr, w1) \<Rightarrow>
          (case stop_servs ss j w1 of
             (w2, tr) \<Rightarrow>
               (w2, StopCalled j stopErr
                      # (case stopErr of Some e \<Rightarrow> [Logged e] | None \<Rightarrow> []) @ tr)))"

text \<open>
  The loop \<^verbatim>\<open>for i, serv := range s.servs\<close> of \<^verbatim>\<open>Start\<close>, from index \<open>i\<close> on: the
  error it returns with, if any.
\<close>

function start_servs ::
  "Context \<Rightarrow> 'w Servlet list \<Rightarrow> nat \<Rightarrow> 'w \<Rightarrow> error option \<times> 'w \<times> event list"
where
  "start_servs ctx ss i w =
     (if i < length ss
      then (case Start (ss ! i) ctx w of
              (Some err, w1) \<Rightarrow>
                (case stop_servs ss i w1 of
                   (w2, tr) \<Rightarrow> (Some err, w2, StartCalled i (Some err) # tr))
            | (None, w1) \<Rightarrow>
                (case start_servs ctx ss (Suc i) w1 of
                   (res, w2, tr) \<Rightarrow> (res, w2, StartCalled i None # tr)))
      else (None, w, []))"
  by pat_completeness auto
termination
  by (relation "measure (\<lambda>(ctx, ss, i, w). length ss - i)") auto

declare start_servs.simps [simp del]

text \<open>
  \<^verbatim>\<open>func (s *Server) Start(ctx context.Context) error\<close>: the error returned, the
  server, the outside state and the events.
\<close>

definition Server_Start ::
  "'w stdlib \<Rightarrow> Context \<Rightarrow> ('w, 'm) Server \<Rightarrow> 'w
     \<Rightarrow> error option \<times> ('w, 'm) Server \<times> 'w \<times> event list"
where
  "Server_Start lib ctx s w =
     (case SplitHostPort lib (Addr (opts s)) of
        Inl err \<Rightarrow> (Some err, s, w, [])
      | Inr hostport \<Rightarrow>
          (case start_servs ctx (servs s) 0 w of
             (Some err, w1, tr) \<Rightarrow> (Some err, s, w1, tr)
           | (None, w1, tr) \<Rightarrow>
               (let lctx = Background;
                    server = \<lparr>Server_Addr = Addr (opts s), BaseContext = lctx\<rparr>
                in (None, s\<lparr>exit := exit s @ [server]\<rparr>, w1,
                    tr @ [Go_coordinator server, Go_ListenAndServe server]))))"

text \<open>
  \<^verbatim>\<open>func (s *Server) Stop(ctx context.Context) error\<close>. The send \<^verbatim>\<open>s.exit <- exit\<close>
  completes when a goroutine is receiving from \<^verbatim>\<open>s.exit\<close>; with none, and no call
  of \<^verbatim>\<open>Start\<close> to come, the caller stays blocked: the result \<open>None\<close>. Otherwise the
  first waiting coordination goroutine takes the token, stops the servlets, shuts
  the engine down and sends the result back, which \<^verbatim>\<open>Stop\<close> returns.
\<close>

definition Server_Stop ::
  "'w stdlib \<Rightarrow> Context \<Rightarrow> ('w, 'm) Server \<Rightarrow> 'w
     \<Rightarrow> (error option \<times> ('w, 'm) Server \<times> 'w \<times> event list) option"
where
  "Server_Stop lib ctx s w =
     (case exit s of
        [] \<Rightarrow> None
      | server # waiting \<Rightarrow>
          (case stop_servs (servs s) (length (servs s)) w of
             (w1, tr) \<Rightarrow>
               (case Shutdown lib server (BaseContext server) w1 of
                  (res, w2) \<Rightarrow>
                    Some (res, s\<lparr>exit := waiting\<rparr>, w2,
                          tr @ [ShutdownCalled server (BaseContext server) res]))))"

text \<open>Projections of a list of events.\<close>

datatype lifecycle_call = CStart nat | CStop nat

fun calls :: "event list \<Rightarrow> lifecycle_call list" where
  "calls [] = []"
| "calls (StartCalled i res # tr) = CStart i # calls tr"
| "calls (StopCalled i res # tr) = CStop i # calls tr"
| "calls (ev # tr) = calls tr"

fun logged :: "event list \<Rightarrow> error list" where
  "logged [] = []"
| "logged (Logged e # tr) = e # logged tr"
| "logged (ev # tr) = logged tr"

fun stop_errors :: "event list \<Rightarrow> error list" where
  "stop_errors [] = []"
| "stop_errors (StopCalled i (Some e) # tr) = e # stop_errors tr"
| "stop_errors (ev # tr) = stop_errors tr"

fun start_failures :: "event list \<Rightarrow> (nat \<times> error) list" where
  "start_failures [] = []"
| "start_failures (StartCalled i (Some e) # tr) = (i, e) # start_failures tr"
| "start_failures (ev # tr) = start_failures tr"

fun spawned :: "event list \<Rightarrow> event list" where
  "spawned [] = []"
| "spawned (Go_coordinator srv # tr) = Go_coordinator srv # spawned tr"
| "spawned (Go_ListenAndServe srv # tr) = Go_ListenAndServe srv # spawned tr"
| "spawned (ev # tr) = spawned tr"

subsection \<open>The rollback as the specification words it\<close>

text \<open>
  The outside state after the servlets of a list have been started one after the
  other, first to last, whatever they returned.
\<close>

fun started :: "Context \<Rightarrow> 'w Servlet list \<Rightarrow> 'w \<Rightarrow> 'w" where
  "started ctx [] w = w"
| "started ctx (serv # rest) w = started ctx rest (snd (Start serv ctx w))"

text \<open>
  Servlets, each with its index, stopped one after the other in the order of the
  list, every one of them whatever the ones before returned: the outside state
  afterwards, and the events, with every error that a \<^verbatim>\<open>Stop\<close> returns logged.
\<close>

fun stopped :: "(nat \<times> 'w Servlet) list \<Rightarrow> 'w \<Rightarrow> 'w" where
  "stopped [] w = w"
| "stopped ((j, serv) # rest) w = stopped rest (snd (Stop serv w))"

fun stop_trace :: "(nat \<times> 'w Servlet) list \<Rightarrow> 'w \<Rightarrow> event list" where
  "stop_trace [] w = []"
| "stop_trace ((j, serv) # rest) w =
     StopCalled j (fst (Stop serv w))
       # (case fst (Stop serv w) of Some e \<Rightarrow> [Logged e] | None \<Rightarrow> [])
       @ stop_trace rest (snd (Stop serv w))"

text \<open>The first \<open>i\<close> servlets with their indices, in reverse registration order.\<close>

definition rollback_order :: "'w Servlet list \<Rightarrow> nat \<Rightarrow> (nat \<times> 'w Servlet) list" where
  "rollback_order ss i = rev (zip [0..<i] (take i ss))"

subsection \<open>The handoff of \<^verbatim>\<open>Stop\<close>, goroutine by goroutine\<close>

text \<open>
  The goroutines that take part in one call of \<^verbatim>\<open>Stop\<close>. The caller is at the send
  \<^verbatim>\<open>s.exit <- exit\<close>, at the receive \<^verbatim>\<open><-exit\<close>, or has returned. A coordination
  goroutine is at \<^verbatim>\<open>exit := <-s.exit\<close>, or at \<^verbatim>\<open>exit <- server.Shutdown(lctx)\<close> with
  the value to send, or has ended. Both channels are unbuffered: a send and a
  receive on the same channel complete together, and neither completes alone.
\<close>

datatype caller = Sending | Receiving | Returned "error option"

datatype coordinator = Waiting http_Server | Replying "error option" | Finished

record 'w goroutines =
  caller :: caller
  coordinators :: "coordinator list"
  outside :: 'w
  events :: "event list"

text \<open>
  The caller's send meets the receive of the waiting coordinator \<open>k\<close>, which then
  stops the servlets and shuts the engine down.
\<close>

definition handoff ::
  "'w stdlib \<Rightarrow> 'w Servlet list \<Rightarrow> 'w goroutines \<Rightarrow> nat \<Rightarrow> http_Server \<Rightarrow> 'w goroutines" where
  "handoff lib ss c k server =
     (case stop_servs ss (length ss) (outside c) of
        (w1, tr) \<Rightarrow>
          (case Shutdown lib server (BaseContext server) w1 of
             (res, w2) \<Rightarrow>
               c\<lparr>caller := Receiving,
                 coordinators := (coordinators c)[k := Replying res],
                 outside := w2,
                 events := events c @ tr @ [ShutdownCalled server (BaseContext server) res]\<rparr>))"

text \<open>The send of coordinator \<open>k\<close> meets the caller's receive.\<close>

definition reply :: "'w goroutines \<Rightarrow> nat \<Rightarrow> error option \<Rightarrow> 'w goroutines" where
  "reply c k res = c\<lparr>caller := Returned res, coordinators := (coordinators c)[k := Finished]\<rparr>"

text \<open>Every way in which the goroutines can move on from \<open>c\<close>.\<close>

definition successors :: "'w stdlib \<Rightarrow> 'w Servlet list \<Rightarrow> 'w goroutines \<Rightarrow> 'w goroutines list" where
  "successors lib ss c =
     (case caller c of
        Sending \<Rightarrow>
          concat (map (\<lambda>k. case coordinators c ! k of
                              Waiting server \<Rightarrow> [handoff lib ss c k server]
                            | Replying res \<Rightarrow> []
                            | Finished \<Rightarrow> [])
                      [0..<length (coordinators c)])
      | Receiving \<Rightarrow>
          concat (map (\<lambda>k. case coordinators c ! k of
                              Waiting server \<Rightarrow> []
                            | Replying res \<Rightarrow> [reply c k res]
                            | Finished \<Rightarrow> [])
                      [0..<length (coordinators c)])
      | Returned res \<Rightarrow> [])"

definition reachable :: "'w stdlib \<Rightarrow> 'w Servlet list \<Rightarrow> 'w goroutines \<Rightarrow> 'w goroutines \<Rightarrow> bool" where
  "reachable lib ss = (\<lambda>c c'. c' \<in> set (successors lib ss c))\<^sup>*\<^sup>*"

text \<open>
  The goroutines at the moment \<^verbatim>\<open>Stop\<close> is called on the server \<open>s\<close>: the caller at
  its send, and the coordination goroutines waiting on \<^verbatim>\<open>exit\<close>.
\<close>

definition calling_Stop :: "('w, 'm) Server \<Rightarrow> 'w \<Rightarrow> 'w goroutines" where
  "calling_Stop s w =
     \<lparr>caller = Sending, coordinators = map Waiting (exit s), outside = w, events = []\<rparr>"

section \<open>Collaborators used in the examples\<close>

text \<open>
  \<^verbatim>\<open>net.SplitHostPort\<close> of the Go standard library, which is not part of the
  repository: the port starts after the last colon; a host in brackets must end just
  before that colon; no other colon or bracket may occur.
\<close>

fun IndexByte :: "string \<Rightarrow> char \<Rightarrow> nat option" where
  "IndexByte [] c = None"
| "IndexByte (x # xs) c = (if x = c then Some 0 else map_option Suc (IndexByte xs c))"

definition LastIndexByte :: "string \<Rightarrow> char \<Rightarrow> nat option" where
  "LastIndexByte s c = map_option (\<lambda>k. length s - 1 - k) (IndexByte (rev s) c)"

definition brackets_ok :: "string \<Rightarrow> nat \<Rightarrow> nat \<Rightarrow> nat \<Rightarrow> string \<Rightarrow> error + string \<times> string" where
  "brackets_ok hostport i j k host =
     (if IndexByte (drop j hostport) (CHR ''['') \<noteq> None
      then Inl (AddrError ''unexpected '[' in address'' hostport)
      else if IndexByte (drop k hostport) (CHR '']'') \<noteq> None
      then Inl (AddrError ''unexpected ']' in address'' hostport)
      else Inr (host, drop (i + 1) hostport))"

definition net_SplitHostPort :: "string \<Rightarrow> error + string \<times> string" where
  "net_SplitHostPort hostport =
     (case LastIndexByte hostport (CHR '':'') of
        None \<Rightarrow> Inl (AddrError ''missing port in address'' hostport)
      | Some i \<Rightarrow>
          if hostport ! 0 = CHR ''[''
          then (case IndexByte hostport (CHR '']'') of
                  None \<Rightarrow> Inl (AddrError ''missing ']' in address'' hostport)
                | Some end \<Rightarrow>
                    if end + 1 = length hostport
                    then Inl (AddrError ''missing port in address'' hostport)
                    else if end + 1 = i
                    then brackets_ok hostport i 1 (end + 1) (take (end - 1) (drop 1 hostport))
                    else if hostport ! (end + 1) = CHR '':''
                    then Inl (AddrError ''too many colons in address'' hostport)
                    else Inl (AddrError ''missing port in address'' hostport))
          else if IndexByte (take i hostport) (CHR '':'') \<noteq> None
          then Inl (AddrError ''too many colons in address'' hostport)
          else brackets_ok hostport i 0 0 (take i hostport))"

text \<open>
  A transport engine with a request in flight that outlasts every deadline:
  \<^verbatim>\<open>Shutdown(ctx)\<close> returns the context's error when \<open>ctx\<close> is done
  (\<^verbatim>\<open>context.Canceled\<close> after a cancel, \<^verbatim>\<open>context.DeadlineExceeded\<close> after the
  deadline), and \<^verbatim>\<open>nil\<close>, after the drain, when \<open>ctx\<close> never is. The outside state is
  a journal of the calls made.
\<close>

definition busy_Shutdown :: "http_Server \<Rightarrow> Context \<Rightarrow> string list \<Rightarrow> error option \<times> string list" where
  "busy_Shutdown server ctx w =
     (if cancelled ctx
      then (Some (errors_New ''context canceled''), w @ [''Shutdown: gave up''])
      else if deadline ctx \<noteq> None
      then (Some (errors_New ''context deadline exceeded''), w @ [''Shutdown: gave up''])
      else (None, w @ [''Shutdown: drained'']))"

definition go_stdlib :: "string list stdlib" where
  "go_stdlib = \<lparr>SplitHostPort = net_SplitHostPort, Shutdown = busy_Shutdown\<rparr>"

text \<open>
  The servlet of the repository's tests (\<^verbatim>\<open>mockServletComponent\<close>, with the call
  order recorded as \<^verbatim>\<open>servletWithOrder\<close> does): each method notes its call in the
  journal and returns the configured error.
\<close>

definition mockServlet :: "string \<Rightarrow> error option \<Rightarrow> error option \<Rightarrow> string list Servlet" where
  "mockServlet name startError stopError =
     \<lparr>Start = (\<lambda>ctx w. (startError, w @ [name @ ''.Start''])),
      Stop = (\<lambda>w. (stopError, w @ [name @ ''.Stop'']))\<rparr>"

text \<open>
  The scenario of the specification with one more servlet: A, B, C, D registered in
  that order, C failing to start with "boom"; B's \<^verbatim>\<open>Stop\<close> fails as well.
\<close>

definition scenario_ABCD :: "(string list, unit) Server" where
  "scenario_ABCD =
     (NewServer '':8092'' ())
       \<lparr>servs := [mockServlet ''A'' None None,
                  mockServlet ''B'' None (Some (errors_New ''stop failed'')),
                  mockServlet ''C'' (Some (errors_New ''boom'')) None,
                  mockServlet ''D'' None None]\<rparr>"

text \<open>A server with a single servlet, which fails to start (\<^verbatim>\<open>TestServerServletStartError\<close>).\<close>

definition scenario_one :: "(string list, unit) Server" where
  "scenario_one =
     (NewServer '':8092'' ()) \<lparr>servs := [mockServlet ''S'' (Some (errors_New ''start failed'')) None]\<rparr>"

text \<open>
  The server of \<^verbatim>\<open>TestServerServletStopOrder\<close>, with a second servlet whose
  \<^verbatim>\<open>Stop\<close> fails: before \<^verbatim>\<open>Start\<close>, after \<^verbatim>\<open>Start\<close>, and after \<^verbatim>\<open>Stop\<close>.
\<close>

definition three_servlets :: "string list Servlet list" where
  "three_servlets =
     [mockServlet ''1'' None None,
      mockServlet ''2'' None (Some (errors_New ''stop failed'')),
      mockServlet ''3'' None None]"

definition server_8094 :: "(string list, unit) Server" where
  "server_8094 = (NewServer '':8094'' ()) \<lparr>servs := three_servlets\<rparr>"

definition http_8094 :: http_Server where
  "http_8094 = \<lparr>Server_Addr = '':8094'', BaseContext = Background\<rparr>"

definition started_8094 :: "(string list, unit) Server" where
  "started_8094 = server_8094 \<lparr>exit := [http_8094]\<rparr>"

definition stopped_8094 :: "(string list, unit) Server" where
  "stopped_8094 = server_8094 \<lparr>exit := []\<rparr>"

text \<open>A context whose deadline has passed, without a call of its cancel function.\<close>

definition expired :: Context where
  "expired = \<lparr>deadline = Some 0, cancelled = False\<rparr>"

text \<open>An empty writer of the tests' kind.\<close>

definition empty_writer :: nonFlusherWriter where
  "empty_writer = \<lparr>body = [], nf_status = 0\<rparr>"

section \<open>Properties of the response wrapper\<close>

lemma Write_committed:
  "committed r \<Longrightarrow> Write ops p (r, lg) =
     (fst (Write_u ops p (ResponseWriter r)),
      r\<lparr>ResponseWriter := snd (Write_u ops p (ResponseWriter r)),
        rsize := rsize r + word_of_int (fst (fst (Write_u ops p (ResponseWriter r))))\<rparr>, lg)"
  by (simp add: Write_def split: prod.splits)

lemma Write_fresh:
  "\<not> committed r \<Longrightarrow> status r \<noteq> 0 \<Longrightarrow>
   Write ops p (r, lg) =
     Write ops p (r\<lparr>committed := True,
        ResponseWriter := WriteHeader_u ops (status r) (ResponseWriter r)\<rparr>, lg)"
  by (simp add: Write_def WriteHeader_def split: prod.splits)

lemma Writes_committed:
  "committed r \<Longrightarrow> Writes ops ps (r, lg) = (ns, r', lg') \<Longrightarrow>
     status r' = status r \<and> committed r' \<and> lg' = lg \<and>
     rsize r' = rsize r + word_of_int (sum_list ns) \<and>
     sink_writes ops ps (ResponseWriter r) = (ns, ResponseWriter r')"
proof (induction ps arbitrary: r ns)
  case Nil
  then show ?case by simp
next
  case (Cons p ps)
  obtain n err u1 where w: "Write_u ops p (ResponseWriter r) = ((n, err), u1)"
    by (metis prod.exhaust)
  let ?r1 = "r\<lparr>ResponseWriter := u1, rsize := rsize r + word_of_int n\<rparr>"
  have step: "Write ops p (r, lg) = ((n, err), ?r1, lg)"
    using Cons.prems(1) w by (simp add: Write_committed)
  obtain ms where ms: "Writes ops ps (?r1, lg) = (ms, r', lg')" and ns: "ns = n # ms"
    using Cons.prems(2) step by (auto split: prod.splits)
  have c1: "committed ?r1" using Cons.prems(1) by simp
  from Cons.IH [OF c1 ms] show ?case
    using w ns by simp
qed

lemma sink_writes_length: "sink_writes ops ps u = (ns, u') \<Longrightarrow> length ns = length ps"
  by (induction ps arbitrary: ns u) (auto split: prod.splits)

lemma sint_int64:
  assumes "- (2 ^ 63) \<le> k" and "k < 2 ^ 63"
  shows "sint (word_of_int k :: 64 word) = k"
proof -
  have "signed_take_bit (63::nat) k = k"
    by (rule signed_take_bit_int_eq_self) (use assms in simp_all)
  then show ?thesis by (simp add: sint_sbintrunc')
qed

lemma WriteHeader_commits: "committed (fst (WriteHeader ops code st))"
  by (cases st) (simp add: WriteHeader_def)

lemma WriteHeader_status_committed:
  "committed (fst st) \<Longrightarrow> status (fst (WriteHeader ops code st)) = status (fst st)"
  by (cases st) (simp add: WriteHeader_def)

lemma Write_commits: "committed (fst (snd (Write ops p st)))"
  by (cases st) (simp add: Write_def WriteHeader_def split: prod.splits)

lemma Write_status_committed:
  "committed (fst st) \<Longrightarrow> status (fst (snd (Write ops p st))) = status (fst st)"
  by (cases st) (simp add: Write_def split: prod.splits)

lemma run_calls_status:
  "committed (fst st) \<Longrightarrow>
     status (fst (run_calls ops cs st)) = status (fst st) \<and> committed (fst (run_calls ops cs st))"
proof (induction cs arbitrary: st)
  case Nil
  then show ?case by simp
next
  case (Cons c cs)
  show ?case
  proof (cases c)
    case (CallWriteHeader code)
    have "committed (fst (WriteHeader ops code st))" by (rule WriteHeader_commits)
    from Cons.IH [OF this] show ?thesis
      using CallWriteHeader Cons.prems by (simp add: WriteHeader_status_committed)
  next
    case (CallWrite p)
    have "committed (fst (snd (Write ops p st)))" by (rule Write_commits)
    from Cons.IH [OF this] show ?thesis
      using CallWrite Cons.prems by (simp add: Write_status_committed)
  qed
qed

lemma three_Writes:
  "Writes nonFlusherWriter_ops [ [1, 2, 3], [], [4, 5, 6, 7]] (NewResponse (Raw empty_writer), [])
     = ([3, 0, 4],
        \<lparr>ResponseWriter = \<lparr>body = [1, 2, 3, 4, 5, 6, 7], nf_status = 200\<rparr>,
         status = 200, rsize = 7, committed = True\<rparr>, [])"
  by (simp add: Write_def WriteHeader_def nonFlusherWriter_ops_def nonFlusherWriter_Write_def
      nonFlusherWriter_WriteHeader_def empty_writer_def)

text \<open>
  C6. A freshly created wrapper (\<open>NewResponse\<close> of a writer that is not a
  \<^verbatim>\<open>Response\<close>) receives the writes \<open>ps\<close>, at least one, and no explicit
  \<^verbatim>\<open>WriteHeader\<close>; the underlying writer reports the counts \<open>ns\<close>. Afterwards the
  status is 200 and the response is committed, however many bytes were written.
  \<^verbatim>\<open>Size()\<close> is the sum of the reported counts in \<^verbatim>\<open>int64\<close> arithmetic, and it is
  that sum as an integer whenever the sum is in the range of \<^verbatim>\<open>int64\<close>. The
  underlying writer has seen one header write, with status 200, and then the body
  writes in order, so the header write precedes the first body write; nothing is
  logged.
\<close>

theorem Writes_without_WriteHeader:
  assumes "ps \<noteq> []"
    and "Writes ops ps (NewResponse (Raw u), lg) = (ns, r, lg')"
  shows "Status r = 200 \<and> Committed r \<and> Size r = word_of_int (sum_list ns) \<and>
         (- (2 ^ 63) \<le> sum_list ns \<and> sum_list ns < 2 ^ 63 \<longrightarrow> sint (Size r) = sum_list ns) \<and>
         sink_writes ops ps (WriteHeader_u ops 200 u) = (ns, Unwrap r) \<and>
         length ns = length ps \<and> lg' = lg"
proof -
  obtain p qs where ps: "ps = p # qs" using assms(1) by (cases ps) auto
  let ?r0 = "NewResponse (Raw u)"
  let ?r1 = "?r0\<lparr>committed := True,
                 ResponseWriter := WriteHeader_u ops (status ?r0) (ResponseWriter ?r0)\<rparr>"
  have "Write ops p (?r0, lg) = Write ops p (?r1, lg)"
    by (rule Write_fresh) simp_all
  then have "Writes ops ps (?r1, lg) = (ns, r, lg')"
    using assms(2) ps by simp
  from Writes_committed [OF _ this]
  have f: "status r = 200" "committed r" "lg' = lg" "rsize r = word_of_int (sum_list ns)"
    "sink_writes ops ps (WriteHeader_u ops 200 u) = (ns, ResponseWriter r)"
    by simp_all
  have len: "length ns = length ps"
    using f(5) by (rule sink_writes_length)
  show ?thesis
    using f len by (simp add: Status_def Committed_def Size_def Unwrap_def sint_int64)
qed

theorem Writes_without_WriteHeader_witness:
  "[ [1, 2, 3], [], [4, 5, 6, 7 :: byte]] \<noteq> [] \<and>
   Writes nonFlusherWriter_ops [ [1, 2, 3], [], [4, 5, 6, 7]] (NewResponse (Raw empty_writer), [])
     = ([3, 0, 4],
        \<lparr>ResponseWriter = \<lparr>body = [1, 2, 3, 4, 5, 6, 7], nf_status = 200\<rparr>,
         status = 200, rsize = 7, committed = True\<rparr>, []) \<and>
   - (2 ^ 63) \<le> sum_list [3, 0, 4 :: int] \<and> sum_list [3, 0, 4 :: int] < 2 ^ 63 \<and>
   sint (Size \<lparr>ResponseWriter = \<lparr>body = [1, 2, 3, 4, 5, 6, 7 :: byte], nf_status = 200\<rparr>,
               status = 200, rsize = 7, committed = True\<rparr>) = 7 \<and>
   sink_writes nonFlusherWriter_ops [ [1, 2, 3], [], [4, 5, 6, 7]]
       (WriteHeader_u nonFlusherWriter_ops 200 empty_writer)
     = ([3, 0, 4], \<lparr>body = [1, 2, 3, 4, 5, 6, 7], nf_status = 200\<rparr>)"
proof -
  have ne: "[ [1, 2, 3], [], [4, 5, 6, 7 :: byte]] \<noteq> []" by simp
  from Writes_without_WriteHeader [OF ne three_Writes] three_Writes
  show ?thesis by (simp add: Unwrap_def)
qed

text \<open>
  C7. On a committed response, \<^verbatim>\<open>WriteHeader(code)\<close> with any code returns
  normally and changes nothing: status, size, committed flag and the underlying
  writer are as before, and one line is logged. Through any further header and
  body writes the status stays what it was.
\<close>

theorem WriteHeader_after_commit:
  assumes "Committed r"
  shows "WriteHeader ops code (r, lg)
           = (r, lg @ [''attempt to write header after response committed''])
         \<and> Status (fst (run_calls ops cs (r, lg))) = Status r"
  using assms run_calls_status [of "(r, lg)" ops cs]
  by (simp add: WriteHeader_def Committed_def Status_def)

theorem WriteHeader_after_commit_witness:
  "Committed (fst (WriteHeader nonFlusherWriter_ops 201 (NewResponse (Raw empty_writer), [])))
   \<and> WriteHeader nonFlusherWriter_ops 404
        (WriteHeader nonFlusherWriter_ops 201 (NewResponse (Raw empty_writer), []))
      = (\<lparr>ResponseWriter = \<lparr>body = [], nf_status = 201\<rparr>, status = 201, rsize = 0,
          committed = True\<rparr>,
         [''attempt to write header after response committed''])"
  using WriteHeader_after_commit
    [of "fst (WriteHeader nonFlusherWriter_ops 201 (NewResponse (Raw empty_writer), []))"
        nonFlusherWriter_ops 404 "[]" "[]"]
  by (simp add: WriteHeader_def Committed_def nonFlusherWriter_ops_def
      nonFlusherWriter_WriteHeader_def empty_writer_def)

text \<open>
  C8. When the underlying writer offers no flush, \<^verbatim>\<open>Flush\<close> panics. When it
  offers no hijack, \<^verbatim>\<open>Hijack\<close> returns normally with no connection and a non-nil
  error; when it offers no push, \<^verbatim>\<open>Push\<close> returns normally with a non-nil error.
  The response is unchanged in both.
\<close>

theorem unsupported_capabilities:
  "(Flush_u ops = None \<longrightarrow> (\<exists>e. Flush ops r = Panic e)) \<and>
   (Hijack_u ops = None \<longrightarrow> (\<exists>e. Hijack ops r = Return ((None, Some e), r))) \<and>
   (Push_u ops = None \<longrightarrow> (\<exists>e. Push ops target options r = Return (Some e, r)))"
  by (simp add: Flush_def Hijack_def Push_def ResponseController_Flush_def
      ResponseController_Hijack_def)

theorem unsupported_capabilities_witness:
  "Flush_u nonFlusherWriter_ops = None \<and> Hijack_u nonFlusherWriter_ops = None \<and>
   Push_u nonFlusherWriter_ops = None \<and>
   (\<exists>e. Flush nonFlusherWriter_ops (NewResponse (Raw empty_writer)) = Panic e) \<and>
   (\<exists>e. Hijack nonFlusherWriter_ops (NewResponse (Raw empty_writer))
        = Return ((None, Some e), NewResponse (Raw empty_writer))) \<and>
   (\<exists>e. Push nonFlusherWriter_ops ''/static/style.css'' None (NewResponse (Raw empty_writer))
        = Return (Some e, NewResponse (Raw empty_writer)))"
  using unsupported_capabilities
    [of nonFlusherWriter_ops "NewResponse (Raw empty_writer)" "''/static/style.css''" None]
  by (simp add: nonFlusherWriter_ops_def)

section \<open>Properties of the mux\<close>

lemma composed_Use: "composed (Use middleware m) H = composed m (middleware H)"
  by (simp add: composed_def Use_def split: option.splits)

lemma composed_Use_all:
  "composed (Use_all ms m) H = composed m (foldr (\<lambda>middleware h. middleware h) ms H)"
  by (induction ms arbitrary: m) (simp_all add: composed_Use)

lemma Use_all_append: "Use_all (ms @ [middleware]) m = Use middleware (Use_all ms m)"
  by (induction ms arbitrary: m) simp_all

lemma onion_chain:
  "foldr (\<lambda>middleware h. middleware h) (map onion ls) terminal w r st
     = st @ map Before ls @ [Handled] @ map After (rev ls)"
  by (induction ls arbitrary: st) (simp_all add: onion_def terminal_def)

lemma composed_NewMux: "composed (NewMux e) H = H"
  by (simp add: composed_def NewMux_def)

lemma three_onions:
  "ServeHTTP recording_ServeMux
       (Use (onion (3::nat)) (Use (onion 2) (Use (onion 1) (NewMux [])))) (Raw u) q []
     = [Before 1, Before 2, Before 3, Handled, After 3, After 2, After 1]"
  by (simp add: ServeHTTP_def Use_def NewMux_def onion_def terminal_def recording_ServeMux_def)

text \<open>
  C4. After the middlewares \<open>ms\<close> have been registered with \<open>Use\<close> on a new mux,
  head of the list first, the handler run around a terminal handler \<open>H\<close> is
  \<open>m1 (m2 (... (mk H)))\<close>. With onion middlewares labelled \<open>ls\<close> a request sees
  the before-logic in registration order, the terminal handler, and the after-logic
  in reverse order. One more \<open>Use\<close> puts the new middleware innermost and leaves
  the earlier ones in their order. With nothing registered the composition is the
  identity. \<open>ServeHTTP\<close> runs this composition around the routing engine's
  dispatch, on the wrapped writer.
\<close>

theorem Use_composition:
  "composed (Use_all ms (NewMux e)) H = foldr (\<lambda>middleware h. middleware h) ms H
   \<and> composed (Use_all (map onion ls) (NewMux e)) terminal w r st
       = st @ map Before ls @ [Handled] @ map After (rev ls)
   \<and> composed (Use middleware (Use_all ms (NewMux e))) H
       = foldr (\<lambda>middleware h. middleware h) ms (middleware H)
   \<and> Use_all (ms @ [middleware]) m = Use middleware (Use_all ms m)
   \<and> composed (NewMux e) H = H
   \<and> ServeHTTP eng m w r
       = composed m (ServeMux_ServeHTTP eng (mux m)) (IsResponse (NewResponse w)) r"
  by (simp add: composed_Use_all composed_Use composed_NewMux onion_chain Use_all_append)
     (simp add: ServeHTTP_def composed_def split: option.splits)

lemma register_ok:
  "pattern \<noteq> [] \<Longrightarrow> handler \<noteq> Nil \<Longrightarrow> handler \<noteq> NilFunc \<Longrightarrow>
   register eng pattern handler m =
     (case ServeMux_Handle eng pattern handler (mux m) of
        Panic e \<Rightarrow> Panic e | Return e1 \<Rightarrow> Return (m\<lparr>mux := e1\<rparr>))"
  by (simp add: register_def registerErr_def split: result.splits)

lemma Mount_root_nil: "Mount eng ''/'' None m = Panic (errors_New ''h3: nil handler'')"
  by (simp add: Mount_def register_def registerErr_def)

text \<open>
  C5. For a sub-router \<open>sub\<close> (not nil): \<open>Mount "/"\<close> hands \<open>sub\<close> itself to the
  routing engine under the pattern "/". For a prefix \<open>p\<close> other than "" and "/",
  with \<open>p1\<close> being \<open>p\<close> without one trailing "/" if it has one, \<open>p1\<close> is not
  empty and \<open>Mount p\<close> hands the engine the pattern \<open>p1 + "/{path...}"\<close> with the
  handler \<^verbatim>\<open>http.StripPrefix(p1, sub)\<close>. In both the mux is the old one with the
  engine's new state, and a panic of the engine is passed on. \<open>Mount ""\<close> panics
  before the engine is called.
\<close>

theorem Mount_registers:
  "Mount eng ''/'' (Some sub) m =
     (case ServeMux_Handle eng ''/'' (Obj sub) (mux m) of
        Panic e \<Rightarrow> Panic e | Return e1 \<Rightarrow> Return (m\<lparr>mux := e1\<rparr>))
   \<and> (p \<noteq> [] \<and> p \<noteq> ''/'' \<longrightarrow>
        (let p1 = (if last p = CHR ''/'' then butlast p else p)
         in p1 \<noteq> [] \<and>
            Mount eng p (Some sub) m =
              (case ServeMux_Handle eng (p1 @ ''/{path...}'') (StripPrefix p1 (Obj sub)) (mux m) of
                 Panic e \<Rightarrow> Panic e | Return e1 \<Rightarrow> Return (m\<lparr>mux := e1\<rparr>))))
   \<and> Mount eng [] sub0 m = Panic (errors_New ''h3: invalid pattern'')"
proof (intro conjI impI)
  show "Mount eng ''/'' (Some sub) m =
     (case ServeMux_Handle eng ''/'' (Obj sub) (mux m) of
        Panic e \<Rightarrow> Panic e | Return e1 \<Rightarrow> Return (m\<lparr>mux := e1\<rparr>))"
    by (simp add: Mount_def register_ok)
next
  assume p: "p \<noteq> [] \<and> p \<noteq> ''/''"
  let ?p1 = "if last p = CHR ''/'' then butlast p else p"
  have idx: "p ! (length p - 1) = last p" using p by (simp add: last_conv_nth)
  have tk: "take (length p - 1) p = butlast p" by (simp add: butlast_conv_take)
  have ne: "?p1 \<noteq> []"
  proof (cases "last p = CHR ''/''")
    case True
    have "butlast p \<noteq> []"
    proof
      assume "butlast p = []"
      then have "p = [last p]" using p by (metis append_butlast_last_id append_Nil)
      then show False using True p by simp
    qed
    then show ?thesis using True by simp
  next
    case False
    then show ?thesis using p by simp
  qed
  have "Mount eng p (Some sub) m
          = register eng (?p1 @ ''/{path...}'') (StripPrefix ?p1 (Obj sub)) m"
  proof (cases "last p = CHR ''/''")
    case True
    then have "butlast p \<noteq> []" using ne by simp
    then show ?thesis
      using p True idx tk by (simp add: Mount_def http_StripPrefix_def Let_def)
  next
    case False
    then show ?thesis
      using p idx by (simp add: Mount_def http_StripPrefix_def Let_def)
  qed
  also have "\<dots> = (case ServeMux_Handle eng (?p1 @ ''/{path...}'')
                            (StripPrefix ?p1 (Obj sub)) (mux m) of
                 Panic e \<Rightarrow> Panic e | Return e1 \<Rightarrow> Return (m\<lparr>mux := e1\<rparr>))"
    by (rule register_ok) simp_all
  finally show "let p1 = ?p1 in p1 \<noteq> [] \<and>
            Mount eng p (Some sub) m =
              (case ServeMux_Handle eng (p1 @ ''/{path...}'') (StripPrefix p1 (Obj sub)) (mux m) of
                 Panic e \<Rightarrow> Panic e | Return e1 \<Rightarrow> Return (m\<lparr>mux := e1\<rparr>))"
    using ne by (simp add: Let_def)
next
  show "Mount eng [] sub0 m = Panic (errors_New ''h3: invalid pattern'')"
    by (simp add: Mount_def)
qed

theorem Mount_registers_witness:
  "''/api/'' \<noteq> [] \<and> ''/api/'' \<noteq> ''/'' \<and>
   Mount recording_ServeMux ''/api/'' (Some (7::nat))
       (NewMux [] :: ((string \<times> nat Handler) list, (unit, unit, nat step list) HandlerFunc) mux)
     = Return \<lparr>mux = [(''/api/{path...}'', StripPrefix ''/api'' (Obj 7))], pre = None\<rparr>
   \<and> Mount recording_ServeMux ''/'' (Some (7::nat))
       (NewMux [] :: ((string \<times> nat Handler) list, (unit, unit, nat step list) HandlerFunc) mux)
     = Return \<lparr>mux = [(''/'', Obj 7)], pre = None\<rparr>"
  using Mount_registers [of recording_ServeMux "7::nat"
      "NewMux [] :: ((string \<times> nat Handler) list, (unit, unit, nat step list) HandlerFunc) mux"
      "''/api/''"]
  by (simp add: recording_ServeMux_def NewMux_def Let_def)

section \<open>Properties of the lifecycle\<close>

lemma Register_servs:
  "Register Mux_Mount c s = Return s' \<Longrightarrow>
     servs s' = servs s @ (case Servlet_of c of Some serv \<Rightarrow> [serv] | None \<Rightarrow> [])"
  by (auto simp add: Register_def split: result.splits option.splits)

lemma calls_append: "calls (xs @ ys) = calls xs @ calls ys"
  by (induction xs rule: calls.induct) simp_all

lemma logged_append: "logged (xs @ ys) = logged xs @ logged ys"
  by (induction xs rule: logged.induct) simp_all

lemma stop_errors_append: "stop_errors (xs @ ys) = stop_errors xs @ stop_errors ys"
  by (induction xs rule: stop_errors.induct) simp_all

lemma spawned_append: "spawned (xs @ ys) = spawned xs @ spawned ys"
  by (induction xs rule: spawned.induct) simp_all

lemma start_failures_append:
  "start_failures (xs @ ys) = start_failures xs @ start_failures ys"
  by (induction xs rule: start_failures.induct) simp_all

lemma start_failures_mem:
  "StartCalled j (Some e) \<in> set tr \<longleftrightarrow> (j, e) \<in> set (start_failures tr)"
  by (induction tr rule: start_failures.induct) auto

lemma stop_servs_trace:
  "stop_servs ss n w = (w', tr) \<Longrightarrow>
     calls tr = map CStop (rev [0..<n]) \<and> logged tr = stop_errors tr \<and>
     spawned tr = [] \<and> start_failures tr = []"
proof (induction n arbitrary: w w' tr)
  case 0
  then show ?case by simp
next
  case (Suc n)
  obtain stopErr w1 where a: "Stop (ss ! n) w = (stopErr, w1)"
    by (cases "Stop (ss ! n) w")
  obtain w2 tr2 where b: "stop_servs ss n w1 = (w2, tr2)"
    by (cases "stop_servs ss n w1")
  have tr: "tr = StopCalled n stopErr
                   # (case stopErr of Some e \<Rightarrow> [Logged e] | None \<Rightarrow> []) @ tr2"
    using Suc.prems a b by simp
  from Suc.IH [OF b] show ?case
    unfolding tr by (cases stopErr) simp_all
qed

lemma start_servs_trace:
  "start_servs ctx ss i w = (res, w', tr) \<Longrightarrow>
     logged tr = stop_errors tr \<and> spawned tr = [] \<and>
     (case res of
        None \<Rightarrow> calls tr = map CStart [i..<length ss] \<and> start_failures tr = []
      | Some err \<Rightarrow>
          (\<exists>k. i \<le> k \<and> k < length ss \<and> start_failures tr = [(k, err)] \<and>
               calls tr = map CStart [i..<k] @ [CStart k] @ map CStop (rev [0..<k])))"
proof (induction ctx ss i w arbitrary: res w' tr rule: start_servs.induct)
  case (1 ctx ss i w)
  show ?case
  proof (cases "i < length ss")
    case False
    then show ?thesis using "1.prems" by (simp add: start_servs.simps)
  next
    case True
    obtain r w1 where a: "Start (ss ! i) ctx w = (r, w1)"
      by (cases "Start (ss ! i) ctx w")
    show ?thesis
    proof (cases r)
      case (Some err)
      obtain w2 tr2 where b: "stop_servs ss i w1 = (w2, tr2)"
        by (cases "stop_servs ss i w1")
      have e: "res = Some err" "tr = StartCalled i (Some err) # tr2"
        using "1.prems" True a Some b by (auto simp add: start_servs.simps)
      from stop_servs_trace [OF b] show ?thesis
        unfolding e using True by auto
    next
      case None
      obtain res2 w2 tr2 where b: "start_servs ctx ss (Suc i) w1 = (res2, w2, tr2)"
        by (cases "start_servs ctx ss (Suc i) w1") auto
      have e: "res = res2" "tr = StartCalled i None # tr2"
        using "1.prems" True a None b by (auto simp add: start_servs.simps)
      have ih: "logged tr2 = stop_errors tr2 \<and> spawned tr2 = [] \<and>
         (case res2 of
            None \<Rightarrow> calls tr2 = map CStart [Suc i..<length ss] \<and> start_failures tr2 = []
          | Some err \<Rightarrow>
              (\<exists>k. Suc i \<le> k \<and> k < length ss \<and> start_failures tr2 = [(k, err)] \<and>
                   calls tr2 = map CStart [Suc i..<k] @ [CStart k] @ map CStop (rev [0..<k])))"
        using "1.IH" [OF True _ _ b] a None by simp
      show ?thesis
      proof (cases res2)
        case None
        then show ?thesis using ih e True by (simp add: upt_conv_Cons)
      next
        case (Some err)
        then obtain k where k: "Suc i \<le> k" "k < length ss" "start_failures tr2 = [(k, err)]"
          "calls tr2 = map CStart [Suc i..<k] @ [CStart k] @ map CStop (rev [0..<k])"
          using ih by auto
        have "[i..<k] = i # [Suc i..<k]" using k(1) by (simp add: upt_conv_Cons)
        then have "calls tr = map CStart [i..<k] @ [CStart k] @ map CStop (rev [0..<k])"
          using k(4) e by simp
        then show ?thesis using ih e Some k by auto
      qed
    qed
  qed
qed

lemma distinct_rollback_calls:
  "distinct (map CStart [0..<i] @ [CStart i] @ map CStop (rev [0..<i]))"
  by (auto simp add: distinct_map inj_on_def)

lemma Server_Stop_any_ctx: "Server_Stop lib ctx s w = Server_Stop lib ctx' s w"
  by (simp add: Server_Stop_def)

lemma successors_blocked:
  "exit s = [] \<Longrightarrow> successors lib ss (calling_Stop s w) = []"
  by (simp add: successors_def calling_Stop_def)

lemma reachable_stuck:
  assumes "successors lib ss c = []"
  shows "reachable lib ss c c' \<longleftrightarrow> c' = c"
proof
  assume "reachable lib ss c c'"
  then have "(\<lambda>a b. b \<in> set (successors lib ss a))\<^sup>*\<^sup>* c c'" by (simp add: reachable_def)
  then show "c' = c"
  proof (induction rule: rtranclp_induct)
    case base
    show ?case by simp
  next
    case (step y z)
    then show ?case using assms by simp
  qed
next
  assume "c' = c"
  then show "reachable lib ss c c'" by (simp add: reachable_def)
qed

lemma Server_Stop_None_iff: "Server_Stop lib ctx s w = None \<longleftrightarrow> exit s = []"
  by (simp add: Server_Stop_def split: list.splits prod.splits)

lemma Server_Stop_is_a_run:
  assumes "Server_Stop lib ctx s w = Some (res, s', w', tr)"
  shows "reachable lib (servs s) (calling_Stop s w)
           \<lparr>caller = Returned res, coordinators = Finished # map Waiting (exit s'),
            outside = w', events = tr\<rparr>"
proof -
  obtain server waiting where ex: "exit s = server # waiting"
    using assms by (cases "exit s") (simp_all add: Server_Stop_def)
  obtain w1 tr1 where sp: "stop_servs (servs s) (length (servs s)) w = (w1, tr1)"
    by (cases "stop_servs (servs s) (length (servs s)) w")
  obtain r w2 where sh: "Shutdown lib server (BaseContext server) w1 = (r, w2)"
    by (cases "Shutdown lib server (BaseContext server) w1")
  have eqs: "res = r" "s' = s\<lparr>exit := waiting\<rparr>" "w' = w2"
    "tr = tr1 @ [ShutdownCalled server (BaseContext server) r]"
    using assms ex sp sh by (auto simp add: Server_Stop_def)
  let ?c0 = "calling_Stop s w"
  let ?c1 = "handoff lib (servs s) ?c0 0 server"
  let ?c2 = "reply ?c1 0 r"
  have c1: "?c1 = \<lparr>caller = Receiving, coordinators = Replying r # map Waiting waiting,
                   outside = w2, events = tr\<rparr>"
    using ex sp sh eqs by (simp add: handoff_def calling_Stop_def)
  have s1: "?c1 \<in> set (successors lib (servs s) ?c0)"
    using ex by (simp add: successors_def calling_Stop_def upt_conv_Cons del: upt_Suc)
  have s2: "?c2 \<in> set (successors lib (servs s) ?c1)"
    unfolding c1 by (simp add: successors_def upt_conv_Cons del: upt_Suc)
  have c2: "?c2 = \<lparr>caller = Returned res, coordinators = Finished # map Waiting (exit s'),
                   outside = w', events = tr\<rparr>"
    unfolding c1 using eqs by (simp add: reply_def)
  have "reachable lib (servs s) ?c0 ?c2"
    unfolding reachable_def using s1 s2
    by (meson rtranclp.rtrancl_into_rtrancl rtranclp.rtrancl_refl)
  then show ?thesis using c2 by simp
qed

lemma rollback_order_Suc:
  "n < length ss \<Longrightarrow> rollback_order ss (Suc n) = (n, ss ! n) # rollback_order ss n"
  by (simp add: rollback_order_def take_Suc_conv_app_nth)

lemma stop_servs_spec:
  "n \<le> length ss \<Longrightarrow>
     stop_servs ss n w = (stopped (rollback_order ss n) w, stop_trace (rollback_order ss n) w)"
proof (induction n arbitrary: w)
  case 0
  then show ?case by (simp add: rollback_order_def)
next
  case (Suc n)
  then have n: "n < length ss" "n \<le> length ss" by simp_all
  show ?case
    using Suc.IH [OF n(2)] by (simp add: rollback_order_Suc [OF n(1)] split: prod.splits)
qed

lemma started_snoc: "started ctx (xs @ [serv]) w = snd (Start serv ctx (started ctx xs w))"
  by (induction xs arbitrary: w) simp_all

lemma started_take_Suc:
  "j < length ss \<Longrightarrow>
     started ctx (take (Suc j) ss) w = snd (Start (ss ! j) ctx (started ctx (take j ss) w))"
  by (simp add: take_Suc_conv_app_nth started_snoc)

lemma start_servs_spec:
  assumes "i < length ss"
    and "a \<le> i"
    and "\<forall>j. a \<le> j \<and> j < i \<longrightarrow> fst (Start (ss ! j) ctx (started ctx (take j ss) w0)) = None"
    and "Start (ss ! i) ctx (started ctx (take i ss) w0) = (Some e, wi)"
  shows "start_servs ctx ss a (started ctx (take a ss) w0)
           = (Some e, stopped (rollback_order ss i) wi,
              map (\<lambda>j. StartCalled j None) [a..<i] @ [StartCalled i (Some e)]
                @ stop_trace (rollback_order ss i) wi)"
  using assms(2,3)
proof (induction "i - a" arbitrary: a)
  case 0
  then have a: "a = i" by simp
  show ?case
    unfolding a using assms(1,4)
    by (simp add: start_servs.simps [of ctx ss i] stop_servs_spec)
next
  case (Suc d)
  then have lt: "a < i" and al: "a < length ss" using assms(1) by simp_all
  have ok: "fst (Start (ss ! a) ctx (started ctx (take a ss) w0)) = None"
    using Suc.prems(2) lt by simp
  have d: "d = i - Suc a" using Suc.hyps(2) by simp
  have ih: "start_servs ctx ss (Suc a) (started ctx (take (Suc a) ss) w0)
           = (Some e, stopped (rollback_order ss i) wi,
              map (\<lambda>j. StartCalled j None) [Suc a..<i] @ [StartCalled i (Some e)]
                @ stop_trace (rollback_order ss i) wi)"
    using Suc.hyps(1) [OF d] lt Suc.prems(2) by simp
  obtain w1 where st: "Start (ss ! a) ctx (started ctx (take a ss) w0) = (None, w1)"
    using ok by (cases "Start (ss ! a) ctx (started ctx (take a ss) w0)") simp
  have w1: "started ctx (take (Suc a) ss) w0 = w1"
    using st by (simp add: started_take_Suc [OF al])
  have up: "[a..<i] = a # [Suc a..<i]" using lt by (simp add: upt_conv_Cons)
  show ?case
    using ih al st unfolding w1 up
    by (simp add: start_servs.simps [of ctx ss a])
qed

lemma calls_starts: "calls (map (\<lambda>j. StartCalled j None) xs) = map CStart xs"
  by (induction xs) simp_all

lemma logged_starts: "logged (map (\<lambda>j. StartCalled j r) xs) = []"
  by (induction xs) simp_all

lemma stop_errors_starts: "stop_errors (map (\<lambda>j. StartCalled j r) xs) = []"
  by (induction xs) simp_all

lemma start_failures_starts: "start_failures (map (\<lambda>j. StartCalled j None) xs) = []"
  by (induction xs) simp_all

lemma spawned_starts: "spawned (map (\<lambda>j. StartCalled j r) xs) = []"
  by (induction xs) simp_all

lemma stop_trace_calls: "calls (stop_trace js w) = map (\<lambda>p. CStop (fst p)) js"
  by (induction js w rule: stop_trace.induct) (simp_all add: calls_append split: option.splits)

lemma stop_trace_logged: "logged (stop_trace js w) = stop_errors (stop_trace js w)"
  by (induction js w rule: stop_trace.induct)
     (auto simp add: logged_append stop_errors_append split: option.splits)

lemma stop_trace_spawned: "spawned (stop_trace js w) = []"
  by (induction js w rule: stop_trace.induct) (simp_all add: spawned_append split: option.splits)

lemma rollback_order_indices: "i \<le> length ss \<Longrightarrow> map fst (rollback_order ss i) = rev [0..<i]"
  by (simp add: rollback_order_def rev_map [symmetric])

lemma servs_scenario_ABCD:
  "servs scenario_ABCD =
     [mockServlet ''A'' None None,
      mockServlet ''B'' None (Some (errors_New ''stop failed'')),
      mockServlet ''C'' (Some (errors_New ''boom'')) None,
      mockServlet ''D'' None None]"
  by (simp add: scenario_ABCD_def)

lemma parse_8092: "SplitHostPort go_stdlib '':8092'' = Inr ([], ''8092'')"
  by (simp add: go_stdlib_def net_SplitHostPort_def LastIndexByte_def brackets_ok_def)

lemma Start_server_8094:
  "Server_Start go_stdlib Background server_8094 []
     = (None, started_8094, [''1.Start'', ''2.Start'', ''3.Start''],
        [StartCalled 0 None, StartCalled 1 None, StartCalled 2 None,
         Go_coordinator http_8094, Go_ListenAndServe http_8094])"
  by (simp add: Server_Start_def go_stdlib_def server_8094_def started_8094_def http_8094_def
      three_servlets_def NewServer_def New_def net_SplitHostPort_def LastIndexByte_def
      brackets_ok_def start_servs.simps mockServlet_def Let_def numeral_2_eq_2)

lemma Stop_started_8094:
  "Server_Stop go_stdlib expired started_8094 [''1.Start'', ''2.Start'', ''3.Start'']
     = Some (None, stopped_8094,
        [''1.Start'', ''2.Start'', ''3.Start'', ''3.Stop'', ''2.Stop'', ''1.Stop'',
         ''Shutdown: drained''],
        [StopCalled 2 None, StopCalled 1 (Some (errors_New ''stop failed'')),
         Logged (errors_New ''stop failed''), StopCalled 0 None,
         ShutdownCalled http_8094 Background None])"
  by (simp add: Server_Stop_def go_stdlib_def busy_Shutdown_def Background_def mockServlet_def
      server_8094_def started_8094_def stopped_8094_def http_8094_def three_servlets_def
      NewServer_def New_def numeral_3_eq_3 numeral_2_eq_2)

text \<open>
  C10. When \<^verbatim>\<open>net.SplitHostPort\<close> rejects \<^verbatim>\<open>Options.Addr\<close>, \<^verbatim>\<open>Start\<close> returns that
  error and nothing else has happened: no servlet method was called, no goroutine
  was spawned (so nothing listens and nothing waits on \<^verbatim>\<open>exit\<close>), and the server
  and the outside state are as before. The empty address is such an address.
\<close>

theorem Start_invalid_address:
  assumes "SplitHostPort lib (Addr (opts s)) = Inl err"
  shows "Server_Start lib ctx s w = (Some err, s, w, [])"
  using assms by (simp add: Server_Start_def)

theorem Start_invalid_address_witness:
  "SplitHostPort go_stdlib
       (Addr (opts ((NewServer [] () :: (string list, unit) Server) \<lparr>servs := three_servlets\<rparr>)))
     = Inl (AddrError ''missing port in address'' [])
   \<and> Server_Start go_stdlib Background ((NewServer [] ()) \<lparr>servs := three_servlets\<rparr>) []
     = (Some (AddrError ''missing port in address'' []),
        (NewServer [] ()) \<lparr>servs := three_servlets\<rparr>, [], [])"
proof -
  have a: "SplitHostPort go_stdlib
       (Addr (opts ((NewServer [] () :: (string list, unit) Server) \<lparr>servs := three_servlets\<rparr>)))
     = Inl (AddrError ''missing port in address'' [])"
    by (simp add: go_stdlib_def NewServer_def New_def net_SplitHostPort_def LastIndexByte_def)
  from Start_invalid_address [OF a, of Background "[]"] a show ?thesis by simp
qed

text \<open>
  C1. Servlets are numbered from 0 in registration order. The address parses,
  \<open>i\<close> is the index of a registered servlet, the \<^verbatim>\<open>Start\<close> of every servlet before
  \<open>i\<close> returns nil in the state in which it is called (the state after the
  servlets before it have been started), and the \<^verbatim>\<open>Start\<close> of servlet \<open>i\<close> returns
  the error \<open>e\<close> there, leaving the state \<open>wi\<close>. Then \<^verbatim>\<open>Server.Start\<close> returns
  \<open>e\<close> and leaves the server unchanged. The outside state is \<open>wi\<close> after \<^verbatim>\<open>Stop\<close> has
  run on the servlets \<open>i - 1, ..., 0\<close> in that order, each whatever the others
  returned. The events are exactly: \<^verbatim>\<open>Start\<close> returning nil on servlets
  \<open>0, ..., i - 1\<close> in that order, \<^verbatim>\<open>Start\<close> returning \<open>e\<close> on servlet \<open>i\<close>, then
  those \<^verbatim>\<open>Stop\<close> calls, each error one of them returns logged after it. So no call
  occurs twice, servlet \<open>i\<close> is not stopped, the servlets after \<open>i\<close> are not
  called at all, and no goroutine is spawned.
\<close>

theorem Start_rolls_back:
  assumes "SplitHostPort lib (Addr (opts s)) = Inr hostport"
    and "i < length (servs s)"
    and "\<forall>j<i. fst (Start (servs s ! j) ctx (started ctx (take j (servs s)) w)) = None"
    and "Start (servs s ! i) ctx (started ctx (take i (servs s)) w) = (Some e, wi)"
  shows "\<exists>w' tr.
           Server_Start lib ctx s w = (Some e, s, w', tr) \<and>
           w' = stopped (rollback_order (servs s) i) wi \<and>
           tr = map (\<lambda>j. StartCalled j None) [0..<i] @ [StartCalled i (Some e)]
                  @ stop_trace (rollback_order (servs s) i) wi \<and>
           map fst (rollback_order (servs s) i) = rev [0..<i] \<and>
           calls tr = map CStart [0..<i] @ [CStart i] @ map CStop (rev [0..<i]) \<and>
           distinct (calls tr) \<and>
           start_failures tr = [(i, e)] \<and>
           logged tr = stop_errors tr \<and> spawned tr = []"
proof -
  let ?ss = "servs s"
  let ?tr = "map (\<lambda>j. StartCalled j None) [0..<i] @ [StartCalled i (Some e)]
               @ stop_trace (rollback_order ?ss i) wi"
  have ok: "\<forall>j. 0 \<le> j \<and> j < i \<longrightarrow> fst (Start (?ss ! j) ctx (started ctx (take j ?ss) w)) = None"
    using assms(3) by simp
  have "start_servs ctx ?ss 0 (started ctx (take 0 ?ss) w)
          = (Some e, stopped (rollback_order ?ss i) wi, ?tr)"
    by (rule start_servs_spec [OF assms(2) _ ok assms(4)]) simp
  then have loop: "start_servs ctx ?ss 0 w = (Some e, stopped (rollback_order ?ss i) wi, ?tr)"
    by simp
  have run: "Server_Start lib ctx s w = (Some e, s, stopped (rollback_order ?ss i) wi, ?tr)"
    using assms(1) loop by (simp add: Server_Start_def)
  have idx: "map fst (rollback_order ?ss i) = rev [0..<i]"
    using assms(2) by (simp add: rollback_order_indices)
  have "map (\<lambda>p. CStop (fst p)) (rollback_order ?ss i) = map CStop (map fst (rollback_order ?ss i))"
    by simp
  then have cs: "calls (stop_trace (rollback_order ?ss i) wi) = map CStop (rev [0..<i])"
    unfolding idx by (simp add: stop_trace_calls)
  have c: "calls ?tr = map CStart [0..<i] @ [CStart i] @ map CStop (rev [0..<i])"
    using cs by (simp add: calls_append calls_starts)
  have sf: "start_failures ?tr = [(i, e)]"
    using stop_servs_trace [of ?ss i wi] assms(2)
    by (simp add: start_failures_append start_failures_starts stop_servs_spec)
  have lg: "logged ?tr = stop_errors ?tr"
    by (simp add: logged_append stop_errors_append logged_starts stop_errors_starts
        stop_trace_logged)
  have sp: "spawned ?tr = []"
    by (simp add: spawned_append spawned_starts stop_trace_spawned)
  show ?thesis
    using run idx c sf lg sp distinct_rollback_calls [of i] by simp
qed

theorem Start_rolls_back_witness:
  "SplitHostPort go_stdlib (Addr (opts scenario_ABCD)) = Inr ([], ''8092'')
   \<and> 2 < length (servs scenario_ABCD)
   \<and> fst (Start (servs scenario_ABCD ! 0) Background
              (started Background (take 0 (servs scenario_ABCD)) [])) = None
   \<and> fst (Start (servs scenario_ABCD ! 1) Background
              (started Background (take 1 (servs scenario_ABCD)) [])) = None
   \<and> Start (servs scenario_ABCD ! 2) Background
        (started Background (take 2 (servs scenario_ABCD)) [])
       = (Some (errors_New ''boom''), [''A.Start'', ''B.Start'', ''C.Start''])
   \<and> Server_Start go_stdlib Background scenario_ABCD []
       = (Some (errors_New ''boom''), scenario_ABCD,
          [''A.Start'', ''B.Start'', ''C.Start'', ''B.Stop'', ''A.Stop''],
          [StartCalled 0 None, StartCalled 1 None, StartCalled 2 (Some (errors_New ''boom'')),
           StopCalled 1 (Some (errors_New ''stop failed'')), Logged (errors_New ''stop failed''),
           StopCalled 0 None])
   \<and> Server_Start go_stdlib Background scenario_one []
       = (Some (errors_New ''start failed''), scenario_one, [''S.Start''],
          [StartCalled 0 (Some (errors_New ''start failed''))])"
proof -
  have h1: "SplitHostPort go_stdlib (Addr (opts scenario_ABCD)) = Inr ([], ''8092'')"
    using parse_8092 by (simp add: scenario_ABCD_def NewServer_def New_def)
  have h2: "2 < length (servs scenario_ABCD)"
    by (simp add: servs_scenario_ABCD)
  have h3: "\<forall>j<2. fst (Start (servs scenario_ABCD ! j) Background
                    (started Background (take j (servs scenario_ABCD)) [])) = None"
    by (simp add: servs_scenario_ABCD mockServlet_def numeral_2_eq_2 less_Suc_eq)
  have h30: "fst (Start (servs scenario_ABCD ! 0) Background
              (started Background (take 0 (servs scenario_ABCD)) [])) = None"
    by (simp add: servs_scenario_ABCD mockServlet_def)
  have h31: "fst (Start (servs scenario_ABCD ! 1) Background
              (started Background (take 1 (servs scenario_ABCD)) [])) = None"
    by (simp add: servs_scenario_ABCD mockServlet_def)
  have h4: "Start (servs scenario_ABCD ! 2) Background
        (started Background (take 2 (servs scenario_ABCD)) [])
       = (Some (errors_New ''boom''), [''A.Start'', ''B.Start'', ''C.Start''])"
    by (simp add: servs_scenario_ABCD mockServlet_def numeral_2_eq_2)
  have r: "rollback_order (servs scenario_ABCD) 2
             = [(1, mockServlet ''B'' None (Some (errors_New ''stop failed''))),
                (0, mockServlet ''A'' None None)]"
    by (simp add: rollback_order_def servs_scenario_ABCD numeral_2_eq_2)
  from Start_rolls_back [OF h1 h2 h3 h4]
  have "Server_Start go_stdlib Background scenario_ABCD []
       = (Some (errors_New ''boom''), scenario_ABCD,
          stopped (rollback_order (servs scenario_ABCD) 2) [''A.Start'', ''B.Start'', ''C.Start''],
          map (\<lambda>j. StartCalled j None) [0..<2] @ [StartCalled 2 (Some (errors_New ''boom''))]
            @ stop_trace (rollback_order (servs scenario_ABCD) 2)
                [''A.Start'', ''B.Start'', ''C.Start''])"
    by blast
  then have abcd: "Server_Start go_stdlib Background scenario_ABCD []
       = (Some (errors_New ''boom''), scenario_ABCD,
          [''A.Start'', ''B.Start'', ''C.Start'', ''B.Stop'', ''A.Stop''],
          [StartCalled 0 None, StartCalled 1 None, StartCalled 2 (Some (errors_New ''boom'')),
           StopCalled 1 (Some (errors_New ''stop failed'')), Logged (errors_New ''stop failed''),
           StopCalled 0 None])"
    unfolding r by (simp add: mockServlet_def numeral_2_eq_2)
  have g1: "SplitHostPort go_stdlib (Addr (opts scenario_one)) = Inr ([], ''8092'')"
    using parse_8092 by (simp add: scenario_one_def NewServer_def New_def)
  have g2: "0 < length (servs scenario_one)"
    by (simp add: scenario_one_def)
  have g3: "\<forall>j<0. fst (Start (servs scenario_one ! j) Background
                    (started Background (take j (servs scenario_one)) [])) = None"
    by simp
  have g4: "Start (servs scenario_one ! 0) Background
        (started Background (take 0 (servs scenario_one)) [])
       = (Some (errors_New ''start failed''), [''S.Start''])"
    by (simp add: scenario_one_def mockServlet_def)
  from Start_rolls_back [OF g1 g2 g3 g4]
  have "Server_Start go_stdlib Background scenario_one []
       = (Some (errors_New ''start failed''), scenario_one,
          stopped (rollback_order (servs scenario_one) 0) [''S.Start''],
          map (\<lambda>j. StartCalled j None) [0..<0] @ [StartCalled 0 (Some (errors_New ''start failed''))]
            @ stop_trace (rollback_order (servs scenario_one) 0) [''S.Start''])"
    by blast
  then have one: "Server_Start go_stdlib Background scenario_one []
       = (Some (errors_New ''start failed''), scenario_one, [''S.Start''],
          [StartCalled 0 (Some (errors_New ''start failed''))])"
    by (simp add: rollback_order_def)
  show ?thesis using h1 h2 h30 h31 h4 abcd one by blast
qed

text \<open>
  C2. After a \<^verbatim>\<open>Start\<close> that returned nil, every servlet has been started, in
  registration order, and a coordination goroutine waits on \<^verbatim>\<open>exit\<close>. A
  call of \<^verbatim>\<open>Stop\<close> then returns, and what it caused is: \<^verbatim>\<open>Stop\<close> on every servlet,
  in reverse registration order \<open>n - 1, ..., 0\<close>, each once, whatever each of them
  returned; their errors logged, in order; then one \<^verbatim>\<open>Shutdown\<close> of the engine,
  whose result is the value \<^verbatim>\<open>Stop\<close> returns. Goroutine by goroutine, this is the
  handoff to the first waiting coordination goroutine followed by its reply.
\<close>

theorem Stop_reverse_order:
  assumes "Server_Start lib ctx s0 w0 = (None, s1, w1, tr1)"
  shows "\<exists>server waiting res w2 tr.
           exit s1 = server # waiting \<and> servs s1 = servs s0 \<and>
           calls tr1 = map CStart [0..<length (servs s0)] \<and>
           Server_Stop lib ctx' s1 w = Some (res, s1\<lparr>exit := waiting\<rparr>, w2, tr) \<and>
           calls tr = map CStop (rev [0..<length (servs s1)]) \<and>
           distinct (calls tr) \<and>
           logged tr = stop_errors tr \<and>
           tr = snd (stop_servs (servs s1) (length (servs s1)) w)
                  @ [ShutdownCalled server (BaseContext server) res] \<and>
           (res, w2) = Shutdown lib server (BaseContext server)
                         (fst (stop_servs (servs s1) (length (servs s1)) w)) \<and>
           reachable lib (servs s1) (calling_Stop s1 w)
             \<lparr>caller = Returned res, coordinators = Finished # map Waiting waiting,
              outside = w2, events = tr\<rparr>"
proof -
  obtain hostport where hp: "SplitHostPort lib (Addr (opts s0)) = Inr hostport"
    using assms by (cases "SplitHostPort lib (Addr (opts s0))") (simp_all add: Server_Start_def)
  obtain r wa tra where st: "start_servs ctx (servs s0) 0 w0 = (r, wa, tra)"
    by (cases "start_servs ctx (servs s0) 0 w0") auto
  have r: "r = None"
    using assms hp st by (cases r) (simp_all add: Server_Start_def)
  let ?srv = "\<lparr>Server_Addr = Addr (opts s0), BaseContext = Background\<rparr>"
  have s1: "s1 = s0\<lparr>exit := exit s0 @ [?srv]\<rparr>"
    and tr1: "tr1 = tra @ [Go_coordinator ?srv, Go_ListenAndServe ?srv]"
    using assms hp st r by (simp_all add: Server_Start_def Let_def)
  have c1: "calls tr1 = map CStart [0..<length (servs s0)]"
    using start_servs_trace [OF st] r unfolding tr1 by (simp add: calls_append)
  obtain server waiting where ex: "exit s1 = server # waiting"
    unfolding s1 by (cases "exit s0") simp_all
  obtain wb trb where sp: "stop_servs (servs s1) (length (servs s1)) w = (wb, trb)"
    by (cases "stop_servs (servs s1) (length (servs s1)) w")
  obtain res w2 where sh: "Shutdown lib server (BaseContext server) wb = (res, w2)"
    by (cases "Shutdown lib server (BaseContext server) wb")
  have stop: "Server_Stop lib ctx' s1 w
      = Some (res, s1\<lparr>exit := waiting\<rparr>, w2, trb @ [ShutdownCalled server (BaseContext server) res])"
    using ex sp sh by (simp add: Server_Stop_def)
  have p: "calls trb = map CStop (rev [0..<length (servs s1)])" "logged trb = stop_errors trb"
    using stop_servs_trace [OF sp] by simp_all
  have d: "distinct (map CStop (rev [0..<length (servs s1)]))"
    by (simp add: distinct_map inj_on_def)
  have run: "reachable lib (servs s1) (calling_Stop s1 w)
             \<lparr>caller = Returned res, coordinators = Finished # map Waiting waiting,
              outside = w2,
              events = trb @ [ShutdownCalled server (BaseContext server) res]\<rparr>"
    using Server_Stop_is_a_run [OF stop] by simp
  show ?thesis
    using ex stop p d sp sh c1 s1 run
    by (simp add: calls_append logged_append stop_errors_append)
qed

theorem Stop_reverse_order_witness:
  "Server_Start go_stdlib Background server_8094 []
     = (None, started_8094, [''1.Start'', ''2.Start'', ''3.Start''],
        [StartCalled 0 None, StartCalled 1 None, StartCalled 2 None,
         Go_coordinator http_8094, Go_ListenAndServe http_8094])
   \<and> Server_Stop go_stdlib Background started_8094 [''1.Start'', ''2.Start'', ''3.Start'']
     = Some (None, stopped_8094,
        [''1.Start'', ''2.Start'', ''3.Start'', ''3.Stop'', ''2.Stop'', ''1.Stop'',
         ''Shutdown: drained''],
        [StopCalled 2 None, StopCalled 1 (Some (errors_New ''stop failed'')),
         Logged (errors_New ''stop failed''), StopCalled 0 None,
         ShutdownCalled http_8094 Background None])
   \<and> calls [StopCalled 2 None, StopCalled 1 (Some (errors_New ''stop failed'')),
         Logged (errors_New ''stop failed''), StopCalled 0 None,
         ShutdownCalled http_8094 Background None] = [CStop 2, CStop 1, CStop 0]"
proof -
  have b: "Server_Stop go_stdlib Background started_8094 [''1.Start'', ''2.Start'', ''3.Start'']
     = Some (None, stopped_8094,
        [''1.Start'', ''2.Start'', ''3.Start'', ''3.Stop'', ''2.Stop'', ''1.Stop'',
         ''Shutdown: drained''],
        [StopCalled 2 None, StopCalled 1 (Some (errors_New ''stop failed'')),
         Logged (errors_New ''stop failed''), StopCalled 0 None,
         ShutdownCalled http_8094 Background None])"
    using Stop_started_8094 Server_Stop_any_ctx [of go_stdlib Background started_8094 _ expired]
    by simp
  from Stop_reverse_order [OF Start_server_8094, of Background "[''1.Start'', ''2.Start'', ''3.Start'']"]
    Start_server_8094 b
  show ?thesis by simp
qed

text \<open>
  C3. \<^verbatim>\<open>Stop(ctx)\<close> is called with a context whose deadline has passed, on a
  started server whose engine has a request in flight. The coordination goroutine
  shuts the engine down with \<^verbatim>\<open>lctx\<close>, the never-cancelled base context made in
  \<^verbatim>\<open>Start\<close>, so the drain runs to its end and \<^verbatim>\<open>Stop\<close> returns nil; the same
  engine shut down with \<open>ctx\<close> gives up with the context's error. The value
  returned is the result of that \<^verbatim>\<open>Shutdown\<close> call.
\<close>

theorem Stop_shuts_down_with_lctx:
  "Server_Stop go_stdlib expired started_8094 [''1.Start'', ''2.Start'', ''3.Start'']
     = Some (None, stopped_8094,
        [''1.Start'', ''2.Start'', ''3.Start'', ''3.Stop'', ''2.Stop'', ''1.Stop'',
         ''Shutdown: drained''],
        [StopCalled 2 None, StopCalled 1 (Some (errors_New ''stop failed'')),
         Logged (errors_New ''stop failed''), StopCalled 0 None,
         ShutdownCalled http_8094 Background None])
   \<and> Shutdown go_stdlib http_8094 expired
        [''1.Start'', ''2.Start'', ''3.Start'', ''3.Stop'', ''2.Stop'', ''1.Stop'']
     = (Some (errors_New ''context deadline exceeded''),
        [''1.Start'', ''2.Start'', ''3.Start'', ''3.Stop'', ''2.Stop'', ''1.Stop'',
         ''Shutdown: gave up''])
   \<and> Background \<noteq> expired"
  using Stop_started_8094
  by (simp add: go_stdlib_def busy_Shutdown_def expired_def Background_def)

text \<open>
  C9. A new server is started once, and \<^verbatim>\<open>Stop\<close> has returned once. Then no
  goroutine receives from \<^verbatim>\<open>exit\<close> any more, and a second \<^verbatim>\<open>Stop\<close>, with any
  context and in any outside state, does not return: its caller is at the send on
  \<^verbatim>\<open>exit\<close>, no goroutine can move, and the only state ever reached is that one.
\<close>

theorem second_Stop_blocks:
  assumes "exit s0 = []"
    and "Server_Start lib ctx s0 w0 = (None, s1, w1, tr1)"
    and "Server_Stop lib ctx1 s1 wa = Some (res, s2, w2, tr2)"
  shows "exit s2 = [] \<and> Server_Stop lib ctx2 s2 wb = None \<and>
         caller (calling_Stop s2 wb) = Sending \<and>
         successors lib (servs s2) (calling_Stop s2 wb) = [] \<and>
         reachable lib (servs s2) (calling_Stop s2 wb) c' = (c' = calling_Stop s2 wb)"
proof -
  have "exit s1 = [\<lparr>Server_Addr = Addr (opts s0), BaseContext = Background\<rparr>]"
    using assms(1,2)
    by (auto simp add: Server_Start_def Let_def split: sum.splits prod.splits option.splits)
  then have e: "exit s2 = []"
    using assms(3) by (auto simp add: Server_Stop_def split: prod.splits)
  have "successors lib (servs s2) (calling_Stop s2 wb) = []"
    using e by (rule successors_blocked)
  then show ?thesis
    using e by (simp add: Server_Stop_def reachable_stuck) (simp add: calling_Stop_def)
qed

theorem second_Stop_blocks_witness:
  "exit server_8094 = []
   \<and> Server_Start go_stdlib Background server_8094 []
     = (None, started_8094, [''1.Start'', ''2.Start'', ''3.Start''],
        [StartCalled 0 None, StartCalled 1 None, StartCalled 2 None,
         Go_coordinator http_8094, Go_ListenAndServe http_8094])
   \<and> Server_Stop go_stdlib expired started_8094 [''1.Start'', ''2.Start'', ''3.Start'']
     = Some (None, stopped_8094,
        [''1.Start'', ''2.Start'', ''3.Start'', ''3.Stop'', ''2.Stop'', ''1.Stop'',
         ''Shutdown: drained''],
        [StopCalled 2 None, StopCalled 1 (Some (errors_New ''stop failed'')),
         Logged (errors_New ''stop failed''), StopCalled 0 None,
         ShutdownCalled http_8094 Background None])
   \<and> Server_Stop go_stdlib Background stopped_8094 [] = None
   \<and> successors go_stdlib (servs stopped_8094) (calling_Stop stopped_8094 []) = []"
proof -
  have a: "exit server_8094 = []"
    by (simp add: server_8094_def NewServer_def New_def)
  from second_Stop_blocks [OF a Start_server_8094 Stop_started_8094, of Background "[]"]
    a Start_server_8094 Stop_started_8094
  show ?thesis by simp
qed

end
